theory Spec2Isabelle
  imports Main "HOL-Library.Sublist" "HOL-Library.Char_ord" "HOL-Library.List_Lexorder"
begin

section \<open>Strings and thrown values\<close>

text \<open>
  A JavaScript string is modelled as a \<^typ>\<open>string\<close> holding its UTF-8 bytes. The
  source only searches messages for ASCII markers, and an ASCII byte never occurs
  inside a multi-byte sequence, so a search on bytes agrees with the source's
  \<open>String.prototype.includes\<close>. \<open>toLowerCase\<close> lowers the letters A to Z; no other
  character lowers to a letter of the markers searched for.
\<close>

fun str_includes :: "string \<Rightarrow> string \<Rightarrow> bool" where
  "str_includes [] sub = (sub = [])"
| "str_includes (c # cs) sub = (prefix sub (c # cs) \<or> str_includes cs sub)"

definition toLowerChar :: "char \<Rightarrow> char" where
  "toLowerChar c =
     (let n = (of_char c :: nat) in if 65 \<le> n \<and> n \<le> 90 then char_of (n + 32) else c)"

definition toLowerCase :: "string \<Rightarrow> string" where
  "toLowerCase s = map toLowerChar s"

text \<open>
  A value thrown by the remote call: an object with an optional \<open>message\<close> and an
  optional numeric \<open>status\<close>. What \<open>retryWithBackoff\<close> itself throws is a
  \<open>js_error option\<close>: \<open>None\<close> is the \<open>undefined\<close> held by \<open>lastError\<close> when the
  loop body never ran.
\<close>

record js_error =
  message :: "string option"
  status :: "int option"

type_synonym thrown = "js_error option"

text \<open>\<open>error.message?.includes(m)\<close>: an absent message gives \<open>undefined\<close>, which is falsy.\<close>

definition messageIncludes :: "js_error \<Rightarrow> string \<Rightarrow> bool" where
  "messageIncludes e m = (case message e of None \<Rightarrow> False | Some s \<Rightarrow> str_includes s m)"

text \<open>\<open>error.message?.toLowerCase().includes(m)\<close>.\<close>

definition messageLowerIncludes :: "js_error \<Rightarrow> string \<Rightarrow> bool" where
  "messageLowerIncludes e m =
     (case message e of None \<Rightarrow> False | Some s \<Rightarrow> str_includes (toLowerCase s) m)"

section \<open>The remote service and the passage of time\<close>

text \<open>
  The generative API is an external collaborator. Its behaviour is a script: the
  outcome of the \<open>k\<close>-th invocation made so far, either a thrown error (\<open>Inl\<close>) or a
  response (\<open>Inr\<close>). The \<open>world\<close> counts the invocations made and logs every
  \<open>wait(ms)\<close> in order.
\<close>

record world =
  calls :: nat
  waits :: "nat list"

type_synonym 'a operation = "nat \<Rightarrow> js_error + 'a"

definition wait :: "nat \<Rightarrow> world \<Rightarrow> world" where
  "wait ms w = w\<lparr>waits := waits w @ [ms]\<rparr>"

definition invoke :: "'a operation \<Rightarrow> world \<Rightarrow> (js_error + 'a) \<times> world" where
  "invoke operation w = (operation (calls w), w\<lparr>calls := Suc (calls w)\<rparr>)"

section \<open>RetryPolicy: \<open>retryWithBackoff\<close>\<close>

text \<open>The classification of the first service module (the one at line 266).\<close>

definition isQuotaError :: "js_error \<Rightarrow> bool" where
  "isQuotaError e =
     (messageIncludes e ''429'' \<or> messageLowerIncludes e ''quota'' \<or> status e = Some 429)"


text \<open>
  The \<open>for\<close> loop of \<open>retryWithBackoff\<close>, from iteration \<open>i\<close>. The two modules differ
  only in the classification, which is the first argument here. Numbers are natural
  numbers: \<open>retries\<close> counts iterations and the delay is \<open>initialDelay * 2 ^ i\<close>.
\<close>

function retryLoop ::
  "(js_error \<Rightarrow> bool) \<Rightarrow> 'a operation \<Rightarrow> nat \<Rightarrow> nat \<Rightarrow> nat \<Rightarrow> thrown \<Rightarrow> world
     \<Rightarrow> (thrown + 'a) \<times> world" where
  "retryLoop isQuota operation retries initialDelay i lastError w =
     (if i < retries then
        (case invoke operation w of
           (Inr v, w1) \<Rightarrow> (Inr v, w1)
         | (Inl e, w1) \<Rightarrow>
             if isQuota e \<and> i < retries - 1
             then retryLoop isQuota operation retries initialDelay (Suc i) (Some e)
                    (wait (initialDelay * 2 ^ i) w1)
             else (Inl (Some e), w1))
      else (Inl lastError, w))"
  by pat_completeness auto
termination
  by (relation "measure (\<lambda>(isQuota, operation, retries, initialDelay, i, lastError, w). retries - i)")
     auto

definition retryWithBackoff ::
  "'a operation \<Rightarrow> nat \<Rightarrow> nat \<Rightarrow> world \<Rightarrow> (thrown + 'a) \<times> world" where
  "retryWithBackoff operation retries initialDelay w =
     retryLoop isQuotaError operation retries initialDelay 0 None w"



declare retryLoop.simps [simp del]

definition totalWait :: "world \<Rightarrow> nat" where
  "totalWait w = sum_list (waits w)"

definition freshWorld :: world where
  "freshWorld = \<lparr>calls = 0, waits = []\<rparr>"

text \<open>Two scripted operations used to run the policy on concrete inputs.\<close>

definition failsTwiceThenSucceeds :: "string operation" where
  "failsTwiceThenSucceeds k =
     (if k = 0 then Inl \<lparr>message = Some ''Quota exceeded'', status = None\<rparr>
      else if k = 1 then Inl \<lparr>message = None, status = Some 429\<rparr>
      else Inr ''ok'')"

definition alwaysUpstream :: "string operation" where
  "alwaysUpstream k = Inl \<lparr>message = Some ''Network unreachable'', status = Some 503\<rparr>"

section \<open>Responses of the image model\<close>

text \<open>
  The fields of a \<open>generateContent\<close> response that the services read. Every optional
  field of the source is an \<open>option\<close>; \<open>inlineData\<close> holds the base64 \<open>data\<close> of an
  inline image when the part has one.
\<close>

record part =
  inlineData :: "string option"

record content =
  parts :: "part list option"

record candidate =
  finishReason :: "string option"
  content :: "content option"

record response =
  candidates :: "candidate list option"
  responseText :: "string option"

definition dataUrl :: "string \<Rightarrow> string" where
  "dataUrl d = ''data:image/png;base64,'' @ d"

text \<open>
  \<open>for (const part of candidates[0].content?.parts || []) if (part.inlineData) push\<close>:
  every inline image of the first candidate, in order (lines 430-441 and 622-626).
\<close>

definition inlineImages :: "response \<Rightarrow> string list" where
  "inlineImages r =
     (case candidates r of
        None \<Rightarrow> []
      | Some [] \<Rightarrow> []
      | Some (c # cs) \<Rightarrow>
          (case content c of
             None \<Rightarrow> []
           | Some ct \<Rightarrow>
               (case parts ct of
                  None \<Rightarrow> []
                | Some ps \<Rightarrow> List.map_filter (\<lambda>p. map_option dataUrl (inlineData p)) ps)))"


section \<open>BatchCoordinator: the sequential generation loops\<close>

text \<open>
  The \<open>catch\<close> of the first module tests the message only (lines 445 and 629), not
  the status.
\<close>

definition quotaMessage :: "js_error \<Rightarrow> bool" where
  "quotaMessage e = (messageIncludes e ''429'' \<or> messageLowerIncludes e ''quota'')"

text \<open>
  Reading \<open>error.message\<close> of \<open>undefined\<close> inside the \<open>catch\<close> raises a TypeError,
  which leaves the loop and is rethrown by the outer handler.
\<close>

definition typeErrorOfUndefined :: js_error where
  "typeErrorOfUndefined =
     \<lparr>message = Some ''Cannot read properties of undefined'', status = None\<rparr>"

text \<open>
  The loop of \<open>generateStageImage\<close> (lines 404-450) and of \<open>generateSimilarVariant\<close>
  (lines 596-634) of the first module, from iteration \<open>i\<close> with the images collected
  so far. Prompt assembly, which precedes the loop and cannot fail, is left out. The
  result is \<open>Inr\<close> of the images when the loop ends or breaks and \<open>Inl\<close> when an
  exception escapes it.
\<close>

function sequentialGeneration ::
  "response operation \<Rightarrow> nat \<Rightarrow> nat \<Rightarrow> string list \<Rightarrow> world
     \<Rightarrow> (thrown + string list) \<times> world" where
  "sequentialGeneration api count i images w =
     (if i < count then
        (case retryWithBackoff api 3 2000 (if 0 < i then wait 1000 w else w) of
           (Inr response, w1) \<Rightarrow>
             sequentialGeneration api count (Suc i) (images @ inlineImages response) w1
         | (Inl None, w1) \<Rightarrow> (Inl (Some typeErrorOfUndefined), w1)
         | (Inl (Some error), w1) \<Rightarrow>
             if quotaMessage error then (Inr images, w1)
             else sequentialGeneration api count (Suc i) images w1)
      else (Inr images, w))"
  by pat_completeness auto
termination
  by (relation "measure (\<lambda>(api, count, i, images, w). count - i)") auto

declare sequentialGeneration.simps [simp del]

definition noImageGenerated :: js_error where
  "noImageGenerated =
     \<lparr>message = Some ''No image generated (All attempts failed or Quota exceeded)'',
      status = None\<rparr>"


text \<open>
  \<open>generateStageImage\<close> of the first module: the loop over \<open>config.imageCount\<close>, then
  lines 452-453; the outer \<open>catch\<close> rethrows.
\<close>

definition generateStageImage ::
  "response operation \<Rightarrow> nat \<Rightarrow> world \<Rightarrow> (thrown + string list) \<times> world" where
  "generateStageImage api imageCount w =
     (case sequentialGeneration api imageCount 0 [] w of
        (Inr images, w1) \<Rightarrow>
          if 0 < length images then (Inr images, w1) else (Inl (Some noImageGenerated), w1)
      | (Inl error, w1) \<Rightarrow> (Inl error, w1))"






text \<open>Responses and scripts used to run the batches on concrete inputs.\<close>

definition imageResponse :: "string list \<Rightarrow> response" where
  "imageResponse ds =
     \<lparr>candidates =
        Some [\<lparr>finishReason = Some ''STOP'',
               content = Some \<lparr>parts = Some (map (\<lambda>d. \<lparr>inlineData = Some d\<rparr>) ds)\<rparr>\<rparr>],
      responseText = None\<rparr>"

definition upstreamError :: js_error where
  "upstreamError = \<lparr>message = Some ''Internal error'', status = Some 500\<rparr>"

definition quotaError :: js_error where
  "quotaError = \<lparr>message = Some ''429 Too Many Requests'', status = Some 429\<rparr>"

definition statusOnlyError :: js_error where
  "statusOnlyError = \<lparr>message = Some ''RESOURCE_EXHAUSTED'', status = Some 429\<rparr>"



text \<open>The first item fails three times with a 429 status and a message without a marker.\<close>

definition firstStatusOnly :: "response operation" where
  "firstStatusOnly k = (if k < 3 then Inl statusOnlyError else Inr (imageResponse [''B'']))"


section \<open>Design metadata: \<open>generateStageDescription\<close>\<close>

record technicalSpecs =
  lighting :: string
  video :: string
  specialEffects :: string

record designResponseSchema =
  conceptTitle :: string
  description :: string
  transformationSequence :: string
  technicalSpecs :: technicalSpecs











section \<open>Designs and the library store\<close>

text \<open>
  The optional \<open>folder\<close> property of a design. An object may lack the property, hold
  it with the value \<open>undefined\<close>, or hold a name; reading \<open>design.folder\<close> gives
  \<open>undefined\<close> in the first two cases.
\<close>

datatype folder_field = FolderAbsent | FolderUndefined | FolderName string

fun folderValue :: "folder_field \<Rightarrow> string option" where
  "folderValue FolderAbsent = None"
| "folderValue FolderUndefined = None"
| "folderValue (FolderName f) = Some f"

text \<open>
  \<open>GeneratedDesign\<close>: the metadata fields of \<open>DesignResponseSchema\<close> and the fields
  below. \<open>imageUrl\<close> is an \<open>option\<close> because undo and redo assign it an array read,
  which is \<open>undefined\<close> out of range. \<open>historyIndex\<close> and \<open>timestamp\<close> are integers.
\<close>

record generatedDesign = designResponseSchema +
  design_id :: string
  imageUrl :: "string option"
  videoUrl :: "string option"
  variants :: "string list option"
  imageHistory :: "string list"
  historyIndex :: int
  timestamp :: int
  folder :: folder_field

text \<open>\<open>xs[i]\<close> for a number \<open>i\<close>: \<open>undefined\<close> outside the array.\<close>

definition nth_js :: "'a list \<Rightarrow> int \<Rightarrow> 'a option" where
  "nth_js xs i = (if 0 \<le> i \<and> i < int (length xs) then Some (xs ! nat i) else None)"

text \<open>\<open>xs.slice(0, k)\<close>: a negative \<open>k\<close> counts from the end.\<close>

definition slice0 :: "'a list \<Rightarrow> int \<Rightarrow> 'a list" where
  "slice0 xs k = take (nat (if k < 0 then max (int (length xs) + k) 0 else k)) xs"

text \<open>Truthiness of a string that may be \<open>undefined\<close>.\<close>

fun truthy :: "string option \<Rightarrow> bool" where
  "truthy None = False"
| "truthy (Some s) = (s \<noteq> [])"

text \<open>
  The persistent state. \<open>designs\<close> is the IndexedDB object store keyed by \<open>id\<close>, held
  as the list of its records in key order; \<open>foldersItem\<close> is the parsed content of the
  local-storage slot of folder names, \<open>None\<close> when the slot is empty. The store is an
  external collaborator known by its key-value contract: \<open>openFails\<close> says that opening
  the database is rejected and \<open>putFails\<close> that write requests are rejected.
\<close>

record storage =
  designs :: "generatedDesign list"
  foldersItem :: "string list option"
  openFails :: bool
  putFails :: bool

definition idb_get :: "generatedDesign list \<Rightarrow> string \<Rightarrow> generatedDesign option" where
  "idb_get ds k = find (\<lambda>d. design_id d = k) ds"

definition idb_put :: "generatedDesign \<Rightarrow> generatedDesign list \<Rightarrow> generatedDesign list" where
  "idb_put d ds = insort_key design_id d (filter (\<lambda>x. design_id x \<noteq> design_id d) ds)"

definition idbError :: js_error where
  "idbError = \<lparr>message = Some ''IndexedDB request failed'', status = None\<rparr>"

text \<open>
  \<open>getSavedDesigns\<close> (lines 32-51): all records, newest first; the empty list when
  the database cannot be opened.
\<close>

definition getSavedDesigns :: "storage \<Rightarrow> generatedDesign list" where
  "getSavedDesigns st =
     (if openFails st then [] else sort_key (\<lambda>d. - timestamp d) (designs st))"

text \<open>\<open>saveDesignToLibrary\<close> (lines 53-85).\<close>

definition saveDesignToLibrary ::
  "generatedDesign \<Rightarrow> storage \<Rightarrow> (thrown + generatedDesign list) \<times> storage" where
  "saveDesignToLibrary design st =
     (if openFails st then (Inl (Some idbError), st)
      else
        let currentDesign = idb_get (designs st) (design_id design);
            designToSave = design\<lparr>folder :=
              (case folderValue (folder design) of
                 Some f \<Rightarrow> FolderName f
               | None \<Rightarrow>
                   (case currentDesign of
                      None \<Rightarrow> FolderUndefined
                    | Some c \<Rightarrow>
                        (case folderValue (folder c) of
                           None \<Rightarrow> FolderUndefined
                         | Some f \<Rightarrow> FolderName f)))\<rparr>
        in if putFails st then (Inl (Some idbError), st)
           else let st1 = st\<lparr>designs := idb_put designToSave (designs st)\<rparr>
                in (Inr (getSavedDesigns st1), st1))"

text \<open>The default folder names of \<open>getFolders\<close> (line 110), as UTF-8 bytes.\<close>

definition defaultFolders :: "string list" where
  "defaultFolders =
     [[CHR 0xE6, CHR 0x9C, CHR 0x80, CHR 0xE6, CHR 0x84, CHR 0x9B] @ '' (Favorites)'',
      [CHR 0xE8, CHR 0x8D, CHR 0x89, CHR 0xE7, CHR 0xA8, CHR 0xBF] @ '' (Drafts)'']"

text \<open>\<open>getFolders\<close> (lines 107-115); the slot is taken to hold a well-formed list.\<close>

definition getFolders :: "storage \<Rightarrow> string list" where
  "getFolders st = (case foldersItem st of None \<Rightarrow> defaultFolders | Some fs \<Rightarrow> fs)"

text \<open>
  The life of an IndexedDB transaction, as far as \<open>deleteFolder\<close> depends on it. A
  transaction is active in the task that creates it. Once control returns to the
  event loop while it has no pending request it commits, and a request placed on it
  afterwards throws a \<open>TransactionInactiveError\<close>. Every other function of the
  storage module places its requests in the task that opens the transaction.
\<close>

datatype tx_state = TxActive | TxFinished

definition afterAwait :: "tx_state \<Rightarrow> tx_state" where
  "afterAwait tx = TxFinished"

definition transactionInactive :: js_error where
  "transactionInactive = \<lparr>message = Some ''TransactionInactiveError'', status = None\<rparr>"

text \<open>
  The loop of \<open>deleteFolder\<close> (lines 142-149) on the transaction \<open>tx\<close>: a matching
  design is written back with \<open>folder: undefined\<close>. The \<open>put\<close> throws on a finished
  transaction, which rejects the awaited promise and leaves the loop. On an active
  one the promise resolves without waiting for the request, so a rejected write goes
  unnoticed.
\<close>

fun clearFolders :: "tx_state \<Rightarrow> bool \<Rightarrow> string \<Rightarrow> generatedDesign list
    \<Rightarrow> generatedDesign list \<Rightarrow> thrown + generatedDesign list" where
  "clearFolders tx rejected folderName [] ds = Inr ds"
| "clearFolders tx rejected folderName (design # rest) ds =
     (if folderValue (folder design) = Some folderName then
        (case tx of
           TxFinished \<Rightarrow> Inl (Some transactionInactive)
         | TxActive \<Rightarrow>
             clearFolders tx rejected folderName rest
               (if rejected then ds else idb_put (design\<lparr>folder := FolderUndefined\<rparr>) ds))
      else clearFolders tx rejected folderName rest ds)"

text \<open>
  \<open>deleteFolder\<close> (lines 127-155). The transaction is opened on line 135, before
  \<open>await getSavedDesigns()\<close> on line 140; the loop runs after that \<open>await\<close>. The
  \<open>catch\<close> logs what the loop throws.
\<close>

definition deleteFolder :: "string \<Rightarrow> storage \<Rightarrow> string list \<times> storage" where
  "deleteFolder folderName st =
     (let folders = filter (\<lambda>f. f \<noteq> folderName) (getFolders st);
          st1 = st\<lparr>foldersItem := Some folders\<rparr>
      in if openFails st1 then (folders, st1)
         else
           let tx = TxActive;
               saved = getSavedDesigns st1;
               tx1 = afterAwait tx
           in (case clearFolders tx1 (putFails st1) folderName saved (designs st1) of
                 Inr ds \<Rightarrow> (folders, st1\<lparr>designs := ds\<rparr>)
               | Inl e \<Rightarrow> (folders, st1)))"

section \<open>SessionController: the handlers of the application\<close>

datatype ui_error =
    SaveFailed
  | ApiKeyMissing
  | GenerateQuota | GenerateFailed
  | OriginalNotFound
  | UpscaleQuota | UpscaleFailed
  | EditQuota | EditFailed
  | ViewpointQuota | ViewpointFailed

text \<open>
  The part of the component state that the handlers below read and write, with the
  persistent state. \<open>hasApiKey\<close> is the truthiness of \<open>process.env.API_KEY\<close>. The
  user-facing messages set by \<open>setError\<close> are named by \<open>ui_error\<close>.
\<close>

record app =
  currentDesign :: "generatedDesign option"
  savedDesigns :: "generatedDesign list"
  autoSave :: bool
  isGenerating :: bool
  isEditingImage :: bool
  error :: "ui_error option"
  hasApiKey :: bool
  storage :: storage

text \<open>\<open>updateDesignState\<close> (lines 52-64).\<close>

definition updateDesignState :: "generatedDesign \<Rightarrow> bool \<Rightarrow> app \<Rightarrow> app" where
  "updateDesignState design forceSave a =
     (let a1 = a\<lparr>currentDesign := Some design\<rparr>
      in if autoSave a \<or> forceSave then
           (case saveDesignToLibrary design (storage a1) of
              (Inr updatedList, st) \<Rightarrow> a1\<lparr>savedDesigns := updatedList, storage := st\<rparr>
            | (Inl e, st) \<Rightarrow> a1\<lparr>error := Some SaveFailed, storage := st\<rparr>)
         else a1)"

text \<open>
  The success path shared by \<open>handleEditImage\<close> (lines 218-228) and
  \<open>handleViewpointChange\<close> (lines 252-262).
\<close>

definition appendImage :: "generatedDesign \<Rightarrow> string \<Rightarrow> generatedDesign" where
  "appendImage prev newImageUrl =
     (let newHistory = slice0 (imageHistory prev) (historyIndex prev + 1) @ [newImageUrl]
      in prev\<lparr>imageUrl := Some newImageUrl,
              imageHistory := newHistory,
              historyIndex := int (length newHistory) - 1\<rparr>)"

text \<open>
  \<open>handleEditImage\<close> (lines 208-240). The first argument is the settled outcome of
  the awaited \<open>editStageImage\<close>. A thrown \<open>undefined\<close> makes the \<open>catch\<close> itself
  throw before \<open>setError\<close>; the \<open>finally\<close> still runs.
\<close>

definition handleEditImage :: "thrown + string \<Rightarrow> app \<Rightarrow> app" where
  "handleEditImage outcome a =
     (case currentDesign a of
        None \<Rightarrow> a
      | Some prev \<Rightarrow>
          if \<not> truthy (imageUrl prev) then a
          else if \<not> hasApiKey a then a
          else
            let a1 = a\<lparr>isEditingImage := True, error := None\<rparr>
            in (case outcome of
                  Inr newImageUrl \<Rightarrow>
                    (updateDesignState (appendImage prev newImageUrl) False a1)
                      \<lparr>isEditingImage := False\<rparr>
                | Inl None \<Rightarrow> a1\<lparr>isEditingImage := False\<rparr>
                | Inl (Some err) \<Rightarrow>
                    a1\<lparr>error := Some (if quotaMessage err then EditQuota else EditFailed),
                       isEditingImage := False\<rparr>))"

text \<open>\<open>handleViewpointChange\<close> (lines 242-274), on the outcome of \<open>generateViewpointVariant\<close>.\<close>

definition handleViewpointChange :: "thrown + string \<Rightarrow> app \<Rightarrow> app" where
  "handleViewpointChange outcome a =
     (case currentDesign a of
        None \<Rightarrow> a
      | Some prev \<Rightarrow>
          if \<not> truthy (imageUrl prev) then a
          else if \<not> hasApiKey a then a
          else
            let a1 = a\<lparr>isEditingImage := True, error := None\<rparr>
            in (case outcome of
                  Inr newImageUrl \<Rightarrow>
                    (updateDesignState (appendImage prev newImageUrl) False a1)
                      \<lparr>isEditingImage := False\<rparr>
                | Inl None \<Rightarrow> a1\<lparr>isEditingImage := False\<rparr>
                | Inl (Some err) \<Rightarrow>
                    a1\<lparr>error :=
                         Some (if quotaMessage err then ViewpointQuota else ViewpointFailed),
                       isEditingImage := False\<rparr>))"

text \<open>\<open>handleUndo\<close> (lines 368-378) and \<open>handleRedo\<close> (lines 380-390).\<close>

definition handleUndo :: "app \<Rightarrow> app" where
  "handleUndo a =
     (case currentDesign a of
        None \<Rightarrow> a
      | Some d \<Rightarrow>
          if historyIndex d \<le> 0 then a
          else
            let newIndex = historyIndex d - 1
            in updateDesignState
                 (d\<lparr>imageUrl := nth_js (imageHistory d) newIndex, historyIndex := newIndex\<rparr>)
                 False a)"

definition handleRedo :: "app \<Rightarrow> app" where
  "handleRedo a =
     (case currentDesign a of
        None \<Rightarrow> a
      | Some d \<Rightarrow>
          if historyIndex d \<ge> int (length (imageHistory d)) - 1 then a
          else
            let newIndex = historyIndex d + 1
            in updateDesignState
                 (d\<lparr>imageUrl := nth_js (imageHistory d) newIndex, historyIndex := newIndex\<rparr>)
                 False a)"

text \<open>
  The design that \<open>handleUpscale\<close> works on (lines 153-171): the first saved design
  showing the chosen image, or else a fresh record built from the current design when
  that one shows or offers the image. \<open>newId\<close> stands for \<open>crypto.randomUUID()\<close>.
\<close>

definition upscaleTarget :: "string \<Rightarrow> string \<Rightarrow> app \<Rightarrow> generatedDesign option" where
  "upscaleTarget variantUrl newId a =
     (case find (\<lambda>d. imageUrl d = Some variantUrl) (savedDesigns a) of
        Some target \<Rightarrow> Some target
      | None \<Rightarrow>
          (case currentDesign a of
             None \<Rightarrow> None
           | Some c \<Rightarrow>
               if imageUrl c = Some variantUrl
                  \<or> (case variants c of None \<Rightarrow> False | Some vs \<Rightarrow> variantUrl \<in> set vs)
               then Some (c\<lparr>design_id := newId,
                            imageUrl := Some variantUrl,
                            variants := Some [],
                            imageHistory := [variantUrl],
                            historyIndex := 0\<rparr>)
               else None))"

text \<open>
  \<open>handleUpscale\<close> (lines 149-206), on the outcome of the awaited
  \<open>upscaleStageImage\<close>.
\<close>

definition handleUpscale :: "string \<Rightarrow> string \<Rightarrow> thrown + string \<Rightarrow> app \<Rightarrow> app" where
  "handleUpscale variantUrl newId outcome a =
     (let a1 = a\<lparr>isEditingImage := True\<rparr>
      in case upscaleTarget variantUrl newId a of
           None \<Rightarrow> a1\<lparr>error := Some OriginalNotFound, isEditingImage := False\<rparr>
         | Some targetDesign \<Rightarrow>
             (case outcome of
                Inr upscaledUrl \<Rightarrow>
                  (updateDesignState
                     (targetDesign\<lparr>imageUrl := Some upscaledUrl,
                                   variants := Some [],
                                   imageHistory := imageHistory targetDesign @ [upscaledUrl],
                                   historyIndex := int (length (imageHistory targetDesign))\<rparr>)
                     False a1)\<lparr>isEditingImage := False\<rparr>
              | Inl None \<Rightarrow> a1\<lparr>isEditingImage := False\<rparr>
              | Inl (Some err) \<Rightarrow>
                  (updateDesignState
                     (targetDesign\<lparr>imageUrl := Some variantUrl,
                                   variants := Some [],
                                   imageHistory := imageHistory targetDesign,
                                   historyIndex := historyIndex targetDesign\<rparr>)
                     False
                     (a1\<lparr>error :=
                          Some (if quotaMessage err then UpscaleQuota else UpscaleFailed)\<rparr>))
                    \<lparr>isEditingImage := False\<rparr>))"

text \<open>
  One element of \<open>newDesigns\<close> in \<open>handleGenerate\<close> (lines 109-117): the object
  literal around one image, with the text details spread into it. \<open>newId\<close> stands for
  \<open>crypto.randomUUID()\<close>; the literal has no \<open>videoUrl\<close> and no \<open>folder\<close>.
\<close>

definition newDesign ::
  "designResponseSchema \<Rightarrow> int \<Rightarrow> (nat \<Rightarrow> string) \<Rightarrow> nat \<times> string \<Rightarrow> generatedDesign" where
  "newDesign textDetails batchTimestamp newIds entry =
     (case entry of (index, img) \<Rightarrow>
        \<lparr>conceptTitle = conceptTitle textDetails,
         description = description textDetails,
         transformationSequence = transformationSequence textDetails,
         technicalSpecs = technicalSpecs textDetails,
         design_id = newIds index,
         imageUrl = Some img,
         videoUrl = None,
         variants = Some [],
         imageHistory = [img],
         historyIndex = 0,
         timestamp = batchTimestamp + int index,
         folder = FolderAbsent\<rparr>)"

text \<open>
  \<open>Promise.all(newDesigns.map(d => saveDesignToLibrary(d)))\<close> (line 121). Every save
  runs whether or not another one fails, and the first rejection is the one thrown.
  The saves are for different ids, so the order in which they reach the store does
  not matter; they are taken in the order of the list. \<open>None\<close> says that all of them
  resolved.
\<close>

fun saveAll :: "generatedDesign list \<Rightarrow> storage \<Rightarrow> thrown option \<times> storage" where
  "saveAll [] st = (None, st)"
| "saveAll (d # ds) st =
     (case saveDesignToLibrary d st of
        (Inr saved, st1) \<Rightarrow> saveAll ds st1
      | (Inl e, st1) \<Rightarrow> (Some e, snd (saveAll ds st1)))"

text \<open>
  \<open>handleGenerate\<close> (lines 84-147), on the settled outcomes of the awaited
  \<open>generateStageImage\<close> and \<open>generateStageDescription\<close>; the second is awaited only
  when the first has succeeded. \<open>batchTimestamp\<close> stands for \<open>Date.now()\<close>. The
  collapsing of the controls on a narrow window is left out.
\<close>

definition generateFailure :: "thrown \<Rightarrow> app \<Rightarrow> app" where
  "generateFailure err a =
     (case err of
        None \<Rightarrow> a\<lparr>isGenerating := False\<rparr>
      | Some e \<Rightarrow>
          a\<lparr>error := Some (if quotaMessage e then GenerateQuota else GenerateFailed),
            isGenerating := False\<rparr>)"

definition handleGenerate ::
  "thrown + string list \<Rightarrow> thrown + designResponseSchema \<Rightarrow> (nat \<Rightarrow> string) \<Rightarrow> int
     \<Rightarrow> app \<Rightarrow> app" where
  "handleGenerate imagesOutcome textOutcome newIds batchTimestamp a =
     (if \<not> hasApiKey a then a\<lparr>error := Some ApiKeyMissing\<rparr>
      else
        let a1 = a\<lparr>isGenerating := True, error := None\<rparr>
        in case imagesOutcome of
             Inl err \<Rightarrow> generateFailure err a1
           | Inr images \<Rightarrow>
               (case textOutcome of
                  Inl err \<Rightarrow> generateFailure err a1
                | Inr textDetails \<Rightarrow>
                    let newDesigns =
                          map (newDesign textDetails batchTimestamp newIds)
                            (enumerate 0 images);
                        shown =
                          (case newDesigns of
                             [] \<Rightarrow> None
                           | [d] \<Rightarrow> Some d
                           | d # others \<Rightarrow> Some (d\<lparr>variants := Some images\<rparr>))
                    in if autoSave a1 then
                         (case saveAll newDesigns (storage a1) of
                            (Some err, st) \<Rightarrow> generateFailure err (a1\<lparr>storage := st\<rparr>)
                          | (None, st) \<Rightarrow>
                              a1\<lparr>savedDesigns := getSavedDesigns st, storage := st,
                                 currentDesign := shown, isGenerating := False\<rparr>)
                       else a1\<lparr>currentDesign := shown, isGenerating := False\<rparr>))"

text \<open>
  The operations of a design's history as commands: an edit or a viewpoint change
  that succeeds with an image, undo and redo.
\<close>

datatype command = Edit string | Viewpoint string | Undo | Redo

fun run :: "command \<Rightarrow> app \<Rightarrow> app" where
  "run (Edit newImage) a = handleEditImage (Inr newImage) a"
| "run (Viewpoint newImage) a = handleViewpointChange (Inr newImage) a"
| "run Undo a = handleUndo a"
| "run Redo a = handleRedo a"

definition cursorInRange :: "generatedDesign \<Rightarrow> bool" where
  "cursorInRange d = (0 \<le> historyIndex d \<and> historyIndex d < int (length (imageHistory d)))"

text \<open>A design with three images and an application state showing it, for concrete runs.\<close>

definition draftDesign :: generatedDesign where
  "draftDesign =
     \<lparr>conceptTitle = ''Aurora'', description = ''A ring of light'',
      transformationSequence = ''The ring opens'',
      technicalSpecs = \<lparr>lighting = ''beams'', video = ''LED'', specialEffects = ''fog''\<rparr>,
      design_id = ''d1'', imageUrl = Some ''c'', videoUrl = None, variants = Some [],
      imageHistory = [''a'', ''b'', ''c''], historyIndex = 2, timestamp = 100,
      folder = FolderAbsent\<rparr>"

definition emptyStorage :: storage where
  "emptyStorage = \<lparr>designs = [], foldersItem = None, openFails = False, putFails = False\<rparr>"

definition session :: app where
  "session =
     \<lparr>currentDesign = Some draftDesign, savedDesigns = [], autoSave = False,
      isGenerating = False, isEditingImage = False, error = None, hasApiKey = True,
      storage = emptyStorage\<rparr>"

text \<open>The current design exists and its cursor lies inside its history.\<close>

definition designInRange :: "app \<Rightarrow> bool" where
  "designInRange a = (\<exists>d. currentDesign a = Some d \<and> cursorInRange d)"

text \<open>
  A selection state: two candidates were generated while autosave was off, so the
  library is empty, and autosave has been switched on since.
\<close>

definition candidateDesign :: generatedDesign where
  "candidateDesign =
     draftDesign\<lparr>design_id := ''d0'', imageUrl := Some ''a'', variants := Some [''a'', ''b''],
                 imageHistory := [''a''], historyIndex := 0\<rparr>"

definition selecting :: app where
  "selecting = session\<lparr>currentDesign := Some candidateDesign, autoSave := True\<rparr>"

lemmas example_defs = session_def selecting_def draftDesign_def candidateDesign_def
  emptyStorage_def

text \<open>A library of three designs: one in each of two folders and one in none.\<close>

definition library :: storage where
  "library =
     \<lparr>designs =
        [draftDesign\<lparr>folder := FolderName ''Drafts''\<rparr>,
         draftDesign\<lparr>design_id := ''d2'', timestamp := 200, folder := FolderName ''Favorites''\<rparr>,
         draftDesign\<lparr>design_id := ''d3'', timestamp := 300\<rparr>],
      foldersItem = Some [''Favorites'', ''Drafts''],
      openFails = False, putFails = False\<rparr>"

section \<open>Properties of the retry policy\<close>

lemma retryLoop_success_after:
  assumes "\<forall>j<k. \<exists>e. operation (calls w + j) = Inl e \<and> isQuota e"
    and "operation (calls w + k) = Inr v"
    and "i + k < retries"
  shows "retryLoop isQuota operation retries d i lastError w =
           (Inr v, w\<lparr>calls := calls w + k + 1,
                      waits := waits w @ map (\<lambda>j. d * 2 ^ (i + j)) [0..<k]\<rparr>)"
  using assms
proof (induction k arbitrary: i w lastError)
  case 0
  then show ?case by (simp add: retryLoop.simps[of _ _ _ _ i] invoke_def)
next
  case (Suc k)
  from Suc.prems(1) obtain e where e: "operation (calls w) = Inl e" "isQuota e"
    by force
  let ?w1 = "wait (d * 2 ^ i) (w\<lparr>calls := Suc (calls w)\<rparr>)"
  have c1: "calls ?w1 = Suc (calls w)"
    by (simp add: wait_def)
  have a1: "\<forall>j<k. \<exists>e. operation (calls ?w1 + j) = Inl e \<and> isQuota e"
  proof (intro allI impI)
    fix j assume "j < k"
    then have "Suc j < Suc k" by simp
    with Suc.prems(1) show "\<exists>e. operation (calls ?w1 + j) = Inl e \<and> isQuota e"
      unfolding c1 by (metis add_Suc_shift)
  qed
  have a2: "operation (calls ?w1 + k) = Inr v"
    using Suc.prems(2) by (simp add: c1)
  have a3: "Suc i + k < retries" using Suc.prems(3) by simp
  have lt: "i < retries" "i < retries - 1" using Suc.prems(3) by arith+
  have step: "retryLoop isQuota operation retries d i lastError w =
                retryLoop isQuota operation retries d (Suc i) (Some e) ?w1"
    using e lt by (simp add: retryLoop.simps[of _ _ _ _ i] invoke_def)
  have m: "map (\<lambda>j. d * 2 ^ (i + j)) [0..<Suc k] =
             (d * 2 ^ i) # map (\<lambda>j. d * 2 ^ (Suc i + j)) [0..<k]"
    by (simp add: upt_conv_Cons map_Suc_upt[symmetric] del: upt_Suc)
  show ?case
    unfolding step Suc.IH[OF a1 a2 a3] m
    by (simp add: wait_def)
qed

lemma retryLoop_fail_fast:
  assumes "operation (calls w) = Inl e" and "\<not> isQuota e" and "i < retries"
  shows "retryLoop isQuota operation retries d i lastError w =
           (Inl (Some e), w\<lparr>calls := Suc (calls w)\<rparr>)"
  using assms by (simp add: retryLoop.simps[of _ _ _ _ i] invoke_def)


lemma sum_backoff: "sum_list (map (\<lambda>i. d * 2 ^ i) [0..<k]) = (d::nat) * (\<Sum>i<k. 2 ^ i)"
  by (induction k) (simp_all add: algebra_simps)

text \<open>
  Claim C7. When the first \<open>k\<close> attempts fail with quota-shaped errors and the next
  one succeeds, with \<open>k\<close> below \<open>retries\<close>, \<open>retryWithBackoff\<close> returns the success
  value after \<open>k + 1\<close> invocations, and the delay waited before retry \<open>i\<close> is
  \<open>initialDelay * 2 ^ i\<close>; the total waited is the sum of these. With two failures,
  three retries and a delay of 2000 ms this is \<open>2000 * (2 ^ 0 + 2 ^ 1)\<close>.
\<close>

theorem retryWithBackoff_backoff_schedule:
  assumes "\<forall>j<k. \<exists>e. operation (calls w + j) = Inl e \<and> isQuotaError e"
    and "operation (calls w + k) = Inr v"
    and "k < retries"
  shows "retryWithBackoff operation retries initialDelay w =
           (Inr v, w\<lparr>calls := calls w + k + 1,
                      waits := waits w @ map (\<lambda>i. initialDelay * 2 ^ i) [0..<k]\<rparr>)
         \<and> totalWait (snd (retryWithBackoff operation retries initialDelay w)) =
             totalWait w + initialDelay * (\<Sum>i<k. 2 ^ i)"
proof -
  have "0 + k < retries" using assms(3) by simp
  from retryLoop_success_after[where isQuota = isQuotaError and i = 0 and d = initialDelay
      and lastError = None and operation = operation and w = w, OF assms(1) assms(2) this]
  have r: "retryWithBackoff operation retries initialDelay w =
           (Inr v, w\<lparr>calls := calls w + k + 1,
                      waits := waits w @ map (\<lambda>i. initialDelay * 2 ^ i) [0..<k]\<rparr>)"
    by (simp add: retryWithBackoff_def)
  show ?thesis unfolding r by (simp add: totalWait_def sum_backoff)
qed

theorem retryWithBackoff_backoff_schedule_witness:
  "retryWithBackoff failsTwiceThenSucceeds 3 2000 freshWorld =
     (Inr ''ok'', \<lparr>calls = 3, waits = [2000 * 2 ^ 0, 2000 * 2 ^ 1]\<rparr>)
   \<and> totalWait (snd (retryWithBackoff failsTwiceThenSucceeds 3 2000 freshWorld)) =
       2000 * (2 ^ 0 + 2 ^ 1)"
proof -
  have q0: "isQuotaError \<lparr>message = Some ''Quota exceeded'', status = None\<rparr>"
    by code_simp
  have q1: "isQuotaError \<lparr>message = None, status = Some 429\<rparr>"
    by (simp add: isQuotaError_def)
  have h1: "\<forall>j<2. \<exists>e. failsTwiceThenSucceeds (calls freshWorld + j) = Inl e \<and> isQuotaError e"
  proof (intro allI impI)
    fix j :: nat assume "j < 2"
    then consider "j = 0" | "j = 1" by arith
    then show "\<exists>e. failsTwiceThenSucceeds (calls freshWorld + j) = Inl e \<and> isQuotaError e"
      using q0 q1 by cases (simp_all add: failsTwiceThenSucceeds_def freshWorld_def)
  qed
  have h2: "failsTwiceThenSucceeds (calls freshWorld + 2) = Inr ''ok''"
    by (simp add: failsTwiceThenSucceeds_def freshWorld_def)
  have h3: "(2::nat) < 3" by simp
  from retryWithBackoff_backoff_schedule[where operation = failsTwiceThenSucceeds
      and w = freshWorld and k = 2 and retries = 3 and initialDelay = 2000, OF h1 h2 h3]
  show ?thesis
    by (simp add: freshWorld_def totalWait_def numeral_2_eq_2 lessThan_Suc)
qed

text \<open>
  Claim C8. An operation whose first attempt fails with an error that is not
  quota-shaped makes \<open>retryWithBackoff\<close> throw that error after this one invocation:
  nothing is retried and nothing is waited, however many retries are allowed.
\<close>

theorem retryWithBackoff_fails_fast:
  assumes "operation (calls w) = Inl e" and "\<not> isQuotaError e" and "0 < retries"
  shows "retryWithBackoff operation retries initialDelay w =
           (Inl (Some e), w\<lparr>calls := Suc (calls w)\<rparr>)"
  using retryLoop_fail_fast[where isQuota = isQuotaError and i = 0 and operation = operation
      and w = w, OF assms]
  by (simp add: retryWithBackoff_def)

theorem retryWithBackoff_fails_fast_witness:
  "retryWithBackoff alwaysUpstream 3 2000 freshWorld =
     (Inl (Some \<lparr>message = Some ''Network unreachable'', status = Some 503\<rparr>),
      \<lparr>calls = 1, waits = []\<rparr>)"
proof -
  have h1: "alwaysUpstream (calls freshWorld) =
              Inl \<lparr>message = Some ''Network unreachable'', status = Some 503\<rparr>"
    by (simp add: alwaysUpstream_def)
  have h2: "\<not> isQuotaError \<lparr>message = Some ''Network unreachable'', status = Some 503\<rparr>"
    by code_simp
  have h3: "(0::nat) < 3" by simp
  from retryWithBackoff_fails_fast[where operation = alwaysUpstream and w = freshWorld
      and retries = 3 and initialDelay = 2000, OF h1 h2 h3]
  show ?thesis by (simp add: freshWorld_def)
qed

section \<open>Properties of the batch loops\<close>



















text \<open>
  The first module classifies a bare 429 status as a quota error when retrying but
  not when deciding to stop the batch: after three attempts on such an error the loop
  goes on to the next item.
\<close>

lemma status_only_rate_limit_continues:
  "generateStageImage firstStatusOnly 2 freshWorld =
     (Inr [dataUrl ''B''], \<lparr>calls = 4, waits = [2000, 4000, 1000]\<rparr>)
   \<and> isQuotaError statusOnlyError \<and> \<not> quotaMessage statusOnlyError"
  by code_simp

section \<open>Properties of metadata generation\<close>





text \<open>
  When the text call propagates an error, \<open>handleGenerate\<close> does fail: its \<open>catch\<close>
  reports the batch as failed although images were produced.
\<close>

lemma handleGenerate_text_error:
  "hasApiKey a \<Longrightarrow>
   error (handleGenerate (Inr images) (Inl (Some e)) newIds ts a) =
     Some (if quotaMessage e then GenerateQuota else GenerateFailed)"
  by (simp add: handleGenerate_def Let_def generateFailure_def)







section \<open>Properties of the design history\<close>

lemma currentDesign_updateDesignState:
  "currentDesign (updateDesignState design forceSave a) = Some design"
  by (simp add: updateDesignState_def Let_def split: prod.splits sum.splits)

lemma slice0_in_range:
  "0 \<le> k \<Longrightarrow> slice0 xs (k + 1) = take (nat k + 1) xs"
  by (simp add: slice0_def nat_add_distrib)

lemma appendImage_in_range:
  assumes "cursorInRange d"
  shows "appendImage d img =
           d\<lparr>imageUrl := Some img,
             imageHistory := take (nat (historyIndex d) + 1) (imageHistory d) @ [img],
             historyIndex := historyIndex d + 1\<rparr>"
proof -
  from assms have k: "0 \<le> historyIndex d" "nat (historyIndex d) < length (imageHistory d)"
    by (simp_all add: cursorInRange_def nat_less_iff)
  then have "min (length (imageHistory d)) (nat (historyIndex d) + 1) = nat (historyIndex d) + 1"
    by simp
  with k show ?thesis
    by (simp add: appendImage_def Let_def slice0_in_range)
qed

lemma appendImage_cursorInRange: "cursorInRange (appendImage d img)"
  by (simp add: appendImage_def Let_def cursorInRange_def)

lemma handleEditImage_success:
  assumes "currentDesign a = Some d" "truthy (imageUrl d)" "hasApiKey a"
  shows "currentDesign (handleEditImage (Inr img) a) = Some (appendImage d img)"
  using assms by (simp add: handleEditImage_def Let_def currentDesign_updateDesignState)

lemma handleViewpointChange_success:
  assumes "currentDesign a = Some d" "truthy (imageUrl d)" "hasApiKey a"
  shows "currentDesign (handleViewpointChange (Inr img) a) = Some (appendImage d img)"
  using assms by (simp add: handleViewpointChange_def Let_def currentDesign_updateDesignState)

lemma handleUndo_current:
  assumes "currentDesign a = Some d"
  shows "currentDesign (handleUndo a) =
           Some (if historyIndex d \<le> 0 then d
                 else d\<lparr>imageUrl := nth_js (imageHistory d) (historyIndex d - 1),
                        historyIndex := historyIndex d - 1\<rparr>)"
  using assms by (simp add: handleUndo_def Let_def currentDesign_updateDesignState)

lemma handleRedo_current:
  assumes "currentDesign a = Some d"
  shows "currentDesign (handleRedo a) =
           Some (if historyIndex d \<ge> int (length (imageHistory d)) - 1 then d
                 else d\<lparr>imageUrl := nth_js (imageHistory d) (historyIndex d + 1),
                        historyIndex := historyIndex d + 1\<rparr>)"
  using assms by (simp add: handleRedo_def Let_def currentDesign_updateDesignState)

lemma run_designInRange:
  assumes "designInRange a"
  shows "designInRange (run c a)"
proof -
  from assms obtain d where d: "currentDesign a = Some d" "cursorInRange d"
    by (auto simp add: designInRange_def)
  show ?thesis
  proof (cases c)
    case (Edit img)
    show ?thesis
    proof (cases "truthy (imageUrl d) \<and> hasApiKey a")
      case True
      with d Edit show ?thesis
        by (simp add: designInRange_def handleEditImage_success appendImage_cursorInRange)
    next
      case False
      with d have "handleEditImage (Inr img) a = a"
        by (auto simp add: handleEditImage_def)
      with assms Edit show ?thesis by simp
    qed
  next
    case (Viewpoint img)
    show ?thesis
    proof (cases "truthy (imageUrl d) \<and> hasApiKey a")
      case True
      with d Viewpoint show ?thesis
        by (simp add: designInRange_def handleViewpointChange_success appendImage_cursorInRange)
    next
      case False
      with d have "handleViewpointChange (Inr img) a = a"
        by (auto simp add: handleViewpointChange_def)
      with assms Viewpoint show ?thesis by simp
    qed
  next
    case Undo
    with d show ?thesis
      by (auto simp add: designInRange_def handleUndo_current cursorInRange_def)
  next
    case Redo
    with d show ?thesis
      by (auto simp add: designInRange_def handleRedo_current cursorInRange_def)
  qed
qed

lemma fold_run_designInRange:
  "designInRange a \<Longrightarrow> designInRange (fold run cmds a)"
  by (induction cmds arbitrary: a) (simp_all add: run_designInRange)

text \<open>
  Claim C1. When an edit or a viewpoint change succeeds on a design whose cursor is
  anywhere inside its history, the history is cut to the entries up to the cursor,
  the new image is appended, the cursor becomes the new last index and the new image
  is the current one. In particular, from a history of three images with cursor 2,
  undo followed by an edit gives the first two images and the new one, with cursor 2.
\<close>

theorem edit_truncates_and_appends:
  assumes "currentDesign a = Some d" and "cursorInRange d"
    and "truthy (imageUrl d)" and "hasApiKey a"
  shows "currentDesign (handleEditImage (Inr img) a) =
           Some (d\<lparr>imageUrl := Some img,
                   imageHistory := take (nat (historyIndex d) + 1) (imageHistory d) @ [img],
                   historyIndex :=
                     int (length (take (nat (historyIndex d) + 1) (imageHistory d) @ [img])) - 1\<rparr>)
         \<and> currentDesign (handleViewpointChange (Inr img) a) =
           Some (d\<lparr>imageUrl := Some img,
                   imageHistory := take (nat (historyIndex d) + 1) (imageHistory d) @ [img],
                   historyIndex :=
                     int (length (take (nat (historyIndex d) + 1) (imageHistory d) @ [img])) - 1\<rparr>)
         \<and> (imageHistory d = [x, y, z] \<and> historyIndex d = 2 \<and> y \<noteq> [] \<longrightarrow>
              currentDesign (handleEditImage (Inr img) (handleUndo a)) =
                Some (d\<lparr>imageUrl := Some img, imageHistory := [x, y, img], historyIndex := 2\<rparr>))"
proof (intro conjI impI)
  from assms(2) have k: "0 \<le> historyIndex d" "nat (historyIndex d) < length (imageHistory d)"
    by (simp_all add: cursorInRange_def nat_less_iff)
  then have len: "int (length (take (nat (historyIndex d) + 1) (imageHistory d) @ [img])) - 1
                    = historyIndex d + 1"
    by simp
  show "currentDesign (handleEditImage (Inr img) a) =
           Some (d\<lparr>imageUrl := Some img,
                   imageHistory := take (nat (historyIndex d) + 1) (imageHistory d) @ [img],
                   historyIndex :=
                     int (length (take (nat (historyIndex d) + 1) (imageHistory d) @ [img])) - 1\<rparr>)"
    unfolding len handleEditImage_success[OF assms(1,3,4)] appendImage_in_range[OF assms(2)] ..
  show "currentDesign (handleViewpointChange (Inr img) a) =
           Some (d\<lparr>imageUrl := Some img,
                   imageHistory := take (nat (historyIndex d) + 1) (imageHistory d) @ [img],
                   historyIndex :=
                     int (length (take (nat (historyIndex d) + 1) (imageHistory d) @ [img])) - 1\<rparr>)"
    unfolding len handleViewpointChange_success[OF assms(1,3,4)] appendImage_in_range[OF assms(2)] ..
next
  assume h: "imageHistory d = [x, y, z] \<and> historyIndex d = 2 \<and> y \<noteq> []"
  let ?u = "d\<lparr>imageUrl := Some y, historyIndex := 1\<rparr>"
  have u: "currentDesign (handleUndo a) = Some ?u"
    using h by (simp add: handleUndo_current[OF assms(1)] nth_js_def)
  have k: "hasApiKey (handleUndo a)"
    using assms(1,4) h
    by (simp add: handleUndo_def Let_def updateDesignState_def split: prod.splits sum.splits)
  have t: "truthy (imageUrl ?u)" using h by simp
  have "appendImage ?u img = d\<lparr>imageUrl := Some img, imageHistory := [x, y, img], historyIndex := 2\<rparr>"
    using h by (simp add: appendImage_def Let_def slice0_def)
  with handleEditImage_success[OF u t k, of img]
  show "currentDesign (handleEditImage (Inr img) (handleUndo a)) =
          Some (d\<lparr>imageUrl := Some img, imageHistory := [x, y, img], historyIndex := 2\<rparr>)"
    by simp
qed

theorem edit_truncates_and_appends_witness:
  "currentDesign (handleEditImage (Inr ''d'') (handleUndo session)) =
     Some (draftDesign\<lparr>imageUrl := Some ''d'', imageHistory := [''a'', ''b'', ''d''],
                       historyIndex := 2\<rparr>)
   \<and> currentDesign (handleViewpointChange (Inr ''d'') (handleUndo session)) =
     Some (draftDesign\<lparr>imageUrl := Some ''d'', imageHistory := [''a'', ''b'', ''d''],
                       historyIndex := 2\<rparr>)"
proof -
  let ?u = "draftDesign\<lparr>imageUrl := Some ''b'', historyIndex := 1\<rparr>"
  have s1: "currentDesign session = Some draftDesign" and s2: "cursorInRange draftDesign"
    and s3: "truthy (imageUrl draftDesign)" and s4: "hasApiKey session"
    by (simp_all add: session_def draftDesign_def cursorInRange_def)
  have s5: "imageHistory draftDesign = [''a'', ''b'', ''c''] \<and> historyIndex draftDesign = 2
              \<and> ''b'' \<noteq> []"
    by (simp add: draftDesign_def)
  have u1: "currentDesign (handleUndo session) = Some ?u"
    by (simp add: handleUndo_current[OF s1] draftDesign_def nth_js_def)
  have u2: "cursorInRange ?u" and u3: "truthy (imageUrl ?u)"
    by (simp_all add: draftDesign_def cursorInRange_def)
  have u4: "hasApiKey (handleUndo session)"
    by (simp add: handleUndo_def session_def draftDesign_def Let_def updateDesignState_def)
  from edit_truncates_and_appends[OF s1 s2 s3 s4, where img = "''d''" and x = "''a''"
      and y = "''b''" and z = "''c''"] s5
  have r1: "currentDesign (handleEditImage (Inr ''d'') (handleUndo session)) =
     Some (draftDesign\<lparr>imageUrl := Some ''d'', imageHistory := [''a'', ''b'', ''d''],
                       historyIndex := 2\<rparr>)"
    by blast
  from edit_truncates_and_appends[OF u1 u2 u3 u4, where img = "''d''"]
  have r2: "currentDesign (handleViewpointChange (Inr ''d'') (handleUndo session)) =
     Some (draftDesign\<lparr>imageUrl := Some ''d'', imageHistory := [''a'', ''b'', ''d''],
                       historyIndex := 2\<rparr>)"
    by (simp add: draftDesign_def)
  from r1 r2 show ?thesis by blast
qed

lemma handleUndo_at_start:
  "currentDesign a = Some d \<Longrightarrow> historyIndex d \<le> 0 \<Longrightarrow> handleUndo a = a"
  by (simp add: handleUndo_def)

lemma handleRedo_at_end:
  "currentDesign a = Some d \<Longrightarrow> historyIndex d \<ge> int (length (imageHistory d)) - 1
     \<Longrightarrow> handleRedo a = a"
  by (simp add: handleRedo_def)

text \<open>
  Claim C2. Starting from a design whose cursor lies inside its (hence non-empty)
  history, after any sequence of successful edits, viewpoint changes, undos and redos
  the cursor still lies inside the history. Undo at cursor 0 and redo at the last
  index return the state unchanged, and undo and redo never change the contents of
  the history.
\<close>

theorem cursor_stays_in_range:
  assumes "currentDesign a = Some d" and "cursorInRange d"
  shows "(\<exists>d'. currentDesign (fold run cmds a) = Some d' \<and> cursorInRange d')
         \<and> (historyIndex d = 0 \<longrightarrow> handleUndo a = a)
         \<and> (historyIndex d = int (length (imageHistory d)) - 1 \<longrightarrow> handleRedo a = a)
         \<and> (\<exists>d'. currentDesign (handleUndo a) = Some d' \<and> imageHistory d' = imageHistory d)
         \<and> (\<exists>d'. currentDesign (handleRedo a) = Some d' \<and> imageHistory d' = imageHistory d)"
proof (intro conjI impI)
  from assms have "designInRange a" by (auto simp add: designInRange_def)
  then have "designInRange (fold run cmds a)" by (rule fold_run_designInRange)
  then show "\<exists>d'. currentDesign (fold run cmds a) = Some d' \<and> cursorInRange d'"
    by (simp add: designInRange_def)
next
  assume "historyIndex d = 0"
  with assms(1) show "handleUndo a = a" by (simp add: handleUndo_at_start)
next
  assume "historyIndex d = int (length (imageHistory d)) - 1"
  with assms(1) show "handleRedo a = a" by (simp add: handleRedo_at_end)
next
  show "\<exists>d'. currentDesign (handleUndo a) = Some d' \<and> imageHistory d' = imageHistory d"
    by (simp add: handleUndo_current[OF assms(1)])
next
  show "\<exists>d'. currentDesign (handleRedo a) = Some d' \<and> imageHistory d' = imageHistory d"
    by (simp add: handleRedo_current[OF assms(1)])
qed


theorem cursor_stays_in_range_witness:
  "designInRange (fold run [Undo, Undo, Undo, Redo, Edit ''d'', Redo, Viewpoint ''e''] session)
   \<and> handleRedo session = session
   \<and> handleUndo (handleUndo (handleUndo session)) = handleUndo (handleUndo session)
   \<and> map_option imageHistory (currentDesign (handleUndo session)) =
       Some [''a'', ''b'', ''c'']"
proof -
  let ?z = "draftDesign\<lparr>imageUrl := Some ''a'', historyIndex := 0\<rparr>"
  have s1: "currentDesign session = Some draftDesign" and s2: "cursorInRange draftDesign"
    by (simp_all add: session_def draftDesign_def cursorInRange_def)
  have s3: "historyIndex draftDesign = int (length (imageHistory draftDesign)) - 1"
    by (simp add: draftDesign_def)
  have z1: "currentDesign (handleUndo (handleUndo session)) = Some ?z"
    by (simp add: handleUndo_def session_def draftDesign_def Let_def updateDesignState_def
          nth_js_def)
  have z2: "cursorInRange ?z" and z3: "historyIndex ?z = 0"
    by (simp_all add: draftDesign_def cursorInRange_def)
  note A = cursor_stays_in_range[OF s1 s2,
      where cmds = "[Undo, Undo, Undo, Redo, Edit ''d'', Redo, Viewpoint ''e'']"]
  note B = cursor_stays_in_range[OF z1 z2, where cmds = "[]"]
  from A have r1: "designInRange
      (fold run [Undo, Undo, Undo, Redo, Edit ''d'', Redo, Viewpoint ''e''] session)"
    by (simp only: designInRange_def)
  from A s3 have r2: "handleRedo session = session" by blast
  from B z3 have r3: "handleUndo (handleUndo (handleUndo session)) = handleUndo (handleUndo session)"
    by blast
  from A have r4: "map_option imageHistory (currentDesign (handleUndo session)) =
       Some [''a'', ''b'', ''c'']"
    by (auto simp add: draftDesign_def)
  from r1 r2 r3 r4 show ?thesis by blast
qed


section \<open>Failed operations\<close>

lemma updateDesignState_manual:
  "\<not> autoSave a \<Longrightarrow> updateDesignState design False a = a\<lparr>currentDesign := Some design\<rparr>"
  by (simp add: updateDesignState_def)

lemma storage_updateDesignState:
  "storage (updateDesignState design False a) =
     (if autoSave a then snd (saveDesignToLibrary design (storage a)) else storage a)"
  by (simp add: updateDesignState_def Let_def split: prod.splits sum.splits)

text \<open>
  Claim C3, as amended. An edit or a viewpoint change that fails leaves the current
  design, the saved list and the store exactly as they were. A failed upscale appends
  no history entry either, but it is not a no-op: when no design can be found for the
  chosen image nothing changes, and otherwise the design found (the library record
  showing the image, or a fresh record built around it) becomes the current design
  with its own history and cursor, the chosen image as its image and its candidates
  cleared; it is not persisted when autosave is off and is saved to the library when
  autosave is on.
\<close>

theorem failed_operation_effect:
  "currentDesign (handleEditImage (Inl err) a) = currentDesign a
   \<and> savedDesigns (handleEditImage (Inl err) a) = savedDesigns a
   \<and> storage (handleEditImage (Inl err) a) = storage a
   \<and> currentDesign (handleViewpointChange (Inl err) a) = currentDesign a
   \<and> savedDesigns (handleViewpointChange (Inl err) a) = savedDesigns a
   \<and> storage (handleViewpointChange (Inl err) a) = storage a
   \<and> (upscaleTarget variantUrl newId a = None \<longrightarrow>
        currentDesign (handleUpscale variantUrl newId (Inl err) a) = currentDesign a
        \<and> savedDesigns (handleUpscale variantUrl newId (Inl err) a) = savedDesigns a
        \<and> storage (handleUpscale variantUrl newId (Inl err) a) = storage a)
   \<and> (upscaleTarget variantUrl newId a = Some target \<longrightarrow>
        currentDesign (handleUpscale variantUrl newId (Inl (Some e)) a) =
          Some (target\<lparr>imageUrl := Some variantUrl, variants := Some []\<rparr>)
        \<and> (\<not> autoSave a \<longrightarrow>
             savedDesigns (handleUpscale variantUrl newId (Inl (Some e)) a) = savedDesigns a
             \<and> storage (handleUpscale variantUrl newId (Inl (Some e)) a) = storage a)
        \<and> (autoSave a \<longrightarrow>
             storage (handleUpscale variantUrl newId (Inl (Some e)) a) =
               snd (saveDesignToLibrary
                      (target\<lparr>imageUrl := Some variantUrl, variants := Some []\<rparr>)
                      (storage a))))"
proof -
  have edit: "currentDesign (handleEditImage (Inl err) a) = currentDesign a
     \<and> savedDesigns (handleEditImage (Inl err) a) = savedDesigns a
     \<and> storage (handleEditImage (Inl err) a) = storage a"
    by (simp add: handleEditImage_def Let_def split: option.splits)
  have view: "currentDesign (handleViewpointChange (Inl err) a) = currentDesign a
     \<and> savedDesigns (handleViewpointChange (Inl err) a) = savedDesigns a
     \<and> storage (handleViewpointChange (Inl err) a) = storage a"
    by (simp add: handleViewpointChange_def Let_def split: option.splits)
  have none: "upscaleTarget variantUrl newId a = None \<longrightarrow>
        currentDesign (handleUpscale variantUrl newId (Inl err) a) = currentDesign a
        \<and> savedDesigns (handleUpscale variantUrl newId (Inl err) a) = savedDesigns a
        \<and> storage (handleUpscale variantUrl newId (Inl err) a) = storage a"
    by (simp add: handleUpscale_def Let_def)
  have some: "upscaleTarget variantUrl newId a = Some target \<longrightarrow>
        currentDesign (handleUpscale variantUrl newId (Inl (Some e)) a) =
          Some (target\<lparr>imageUrl := Some variantUrl, variants := Some []\<rparr>)
        \<and> (\<not> autoSave a \<longrightarrow>
             savedDesigns (handleUpscale variantUrl newId (Inl (Some e)) a) = savedDesigns a
             \<and> storage (handleUpscale variantUrl newId (Inl (Some e)) a) = storage a)
        \<and> (autoSave a \<longrightarrow>
             storage (handleUpscale variantUrl newId (Inl (Some e)) a) =
               snd (saveDesignToLibrary
                      (target\<lparr>imageUrl := Some variantUrl, variants := Some []\<rparr>)
                      (storage a)))"
    by (simp add: handleUpscale_def Let_def currentDesign_updateDesignState
          storage_updateDesignState updateDesignState_manual)
  from edit view none some show ?thesis by blast
qed


theorem failed_operation_effect_witness:
  "currentDesign (handleEditImage (Inl (Some upstreamError)) session) = Some draftDesign
   \<and> storage (handleViewpointChange (Inl (Some quotaError)) session) = emptyStorage
   \<and> currentDesign (handleUpscale ''x'' ''d9'' (Inl (Some upstreamError)) session) =
       Some draftDesign
   \<and> currentDesign (handleUpscale ''c'' ''d9'' (Inl (Some upstreamError)) session) =
       Some (draftDesign\<lparr>design_id := ''d9'', imageHistory := [''c''], historyIndex := 0\<rparr>)
   \<and> storage (handleUpscale ''c'' ''d9'' (Inl (Some upstreamError)) session) = emptyStorage
   \<and> map design_id
        (designs (storage (handleUpscale ''b'' ''d9'' (Inl (Some upstreamError)) selecting))) =
       [''d9'']"
proof -
  have t0: "upscaleTarget ''x'' ''d9'' session = None"
    by (simp add: example_defs upscaleTarget_def)
  have t1: "upscaleTarget ''c'' ''d9'' session =
              Some (draftDesign\<lparr>design_id := ''d9'', imageHistory := [''c''], historyIndex := 0\<rparr>)"
    by (simp add: example_defs upscaleTarget_def)
  have t2: "upscaleTarget ''b'' ''d9'' selecting =
              Some (candidateDesign\<lparr>design_id := ''d9'', imageUrl := Some ''b'',
                      variants := Some [], imageHistory := [''b'']\<rparr>)"
    by (simp add: example_defs upscaleTarget_def)
  have m: "\<not> autoSave session" and s: "autoSave selecting"
    by (simp_all add: example_defs)
  note A = failed_operation_effect[where a = session and err = "Some upstreamError"
      and variantUrl = "''x''" and newId = "''d9''"]
  note A' = failed_operation_effect[where a = session and err = "Some quotaError"]
  note B = failed_operation_effect[where a = session and variantUrl = "''c''"
      and newId = "''d9''" and e = upstreamError
      and target = "draftDesign\<lparr>design_id := ''d9'', imageHistory := [''c''], historyIndex := 0\<rparr>"]
  note C = failed_operation_effect[where a = selecting and variantUrl = "''b''"
      and newId = "''d9''" and e = upstreamError
      and target = "candidateDesign\<lparr>design_id := ''d9'', imageUrl := Some ''b'',
                      variants := Some [], imageHistory := [''b'']\<rparr>"]
  from A have r1: "currentDesign (handleEditImage (Inl (Some upstreamError)) session) =
                     Some draftDesign"
    by (simp add: session_def)
  from A' have r2: "storage (handleViewpointChange (Inl (Some quotaError)) session) = emptyStorage"
    by (simp add: session_def)
  from A t0 have r3: "currentDesign (handleUpscale ''x'' ''d9'' (Inl (Some upstreamError)) session) =
       Some draftDesign"
    by (simp add: session_def)
  from B t1 m have r4: "currentDesign (handleUpscale ''c'' ''d9'' (Inl (Some upstreamError)) session) =
       Some (draftDesign\<lparr>design_id := ''d9'', imageHistory := [''c''], historyIndex := 0\<rparr>)"
    and r5: "storage (handleUpscale ''c'' ''d9'' (Inl (Some upstreamError)) session) = emptyStorage"
    by (simp_all add: example_defs)
  from C t2 s have r6: "map design_id
        (designs (storage (handleUpscale ''b'' ''d9'' (Inl (Some upstreamError)) selecting))) =
       [''d9'']"
    by (simp add: example_defs saveDesignToLibrary_def idb_get_def idb_put_def
          getSavedDesigns_def Let_def)
  from r1 r2 r3 r4 r5 r6 show ?thesis by blast
qed

text \<open>
  Claim C3 as stated covers upscale. With two candidates on screen, an empty library
  and autosave on, a failed upscale of the second candidate replaces the current
  design (history \<open>[a]\<close>, id \<open>d0\<close>) by a record with a new id and the history
  \<open>[b]\<close>, and writes that record to the store.
\<close>

theorem failed_upscale_counterexample:
  "map_option imageHistory (currentDesign selecting) = Some [''a'']
   \<and> map_option design_id (currentDesign selecting) = Some ''d0''
   \<and> designs (storage selecting) = []
   \<and> map_option imageHistory
        (currentDesign (handleUpscale ''b'' ''d9'' (Inl (Some upstreamError)) selecting)) =
       Some [''b'']
   \<and> map_option design_id
        (currentDesign (handleUpscale ''b'' ''d9'' (Inl (Some upstreamError)) selecting)) =
       Some ''d9''
   \<and> map design_id
        (designs (storage (handleUpscale ''b'' ''d9'' (Inl (Some upstreamError)) selecting))) =
       [''d9'']"
  by (simp add: example_defs handleUpscale_def upscaleTarget_def updateDesignState_def
        saveDesignToLibrary_def idb_get_def idb_put_def getSavedDesigns_def Let_def)


section \<open>Properties of the library\<close>

lemma find_insort_key_hit:
  "P x \<Longrightarrow> \<forall>y\<in>set xs. \<not> P y \<Longrightarrow> find P (insort_key f x xs) = Some x"
  by (induction xs) auto

lemma find_insort_key_miss:
  "\<not> P x \<Longrightarrow> find P (insort_key f x xs) = find P xs"
  by (induction xs) auto

lemma find_filter_keep:
  "(\<And>y. P y \<Longrightarrow> Q y) \<Longrightarrow> find P (filter Q xs) = find P xs"
  by (induction xs) auto

lemma idb_get_put:
  "idb_get (idb_put d ds) k = (if k = design_id d then Some d else idb_get ds k)"
proof (cases "k = design_id d")
  case True
  then show ?thesis
    by (simp add: idb_get_def idb_put_def find_insort_key_hit)
next
  case False
  then have "find (\<lambda>x. design_id x = k) (filter (\<lambda>x. design_id x \<noteq> design_id d) ds) =
               find (\<lambda>x. design_id x = k) ds"
    by (intro find_filter_keep) simp
  with False show ?thesis
    by (simp add: idb_get_def idb_put_def find_insort_key_miss)
qed

text \<open>
  Claim C4, as amended. Saving a design whose id is already in the store, with the
  store working: when the incoming record leaves \<open>folder\<close> unset, or sets it to
  \<open>undefined\<close>, the stored record keeps the folder of the record it replaces; when the
  incoming record names a folder, the stored record has that folder.
\<close>

theorem upsert_folder:
  assumes "idb_get (designs st) (design_id design) = Some old"
    and "\<not> openFails st" and "\<not> putFails st"
  shows "\<exists>saved st1. saveDesignToLibrary design st = (Inr saved, st1)
           \<and> idb_get (designs st1) (design_id design) =
               Some (design\<lparr>folder :=
                  (case folderValue (folder design) of
                     None \<Rightarrow> (case folderValue (folder old) of
                                None \<Rightarrow> FolderUndefined | Some f \<Rightarrow> FolderName f)
                   | Some f \<Rightarrow> FolderName f)\<rparr>)
           \<and> (folder design = FolderAbsent \<or> folder design = FolderUndefined \<longrightarrow>
                map_option (\<lambda>d. folderValue (folder d)) (idb_get (designs st1) (design_id design))
                  = Some (folderValue (folder old)))
           \<and> (\<forall>f. folder design = FolderName f \<longrightarrow>
                map_option (\<lambda>d. folderValue (folder d)) (idb_get (designs st1) (design_id design))
                  = Some (Some f))"
  using assms
  by (cases "folder design"; cases "folderValue (folder old)")
     (simp_all add: saveDesignToLibrary_def Let_def idb_get_put)

theorem upsert_folder_witness:
  "map_option (\<lambda>d. folderValue (folder d))
     (idb_get (designs (snd (saveDesignToLibrary draftDesign library))) ''d1'') =
     Some (Some ''Drafts'')
   \<and> map_option (\<lambda>d. folderValue (folder d))
     (idb_get (designs (snd (saveDesignToLibrary
                               (draftDesign\<lparr>folder := FolderName ''Favorites''\<rparr>) library))) ''d1'') =
     Some (Some ''Favorites'')"
proof -
  have g: "idb_get (designs library) (design_id draftDesign) =
             Some (draftDesign\<lparr>folder := FolderName ''Drafts''\<rparr>)"
    and g': "idb_get (designs library) (design_id (draftDesign\<lparr>folder := FolderName ''Favorites''\<rparr>)) =
             Some (draftDesign\<lparr>folder := FolderName ''Drafts''\<rparr>)"
    by (simp_all add: library_def idb_get_def draftDesign_def)
  have o: "\<not> openFails library" and p: "\<not> putFails library"
    by (simp_all add: library_def)
  have f: "folder draftDesign = FolderAbsent \<or> folder draftDesign = FolderUndefined"
    and i: "design_id draftDesign = ''d1''"
    by (simp_all add: draftDesign_def)
  from upsert_folder[OF g o p] f i
  have r1: "map_option (\<lambda>d. folderValue (folder d))
     (idb_get (designs (snd (saveDesignToLibrary draftDesign library))) ''d1'') =
     Some (Some ''Drafts'')"
    by auto
  from upsert_folder[OF g' o p] i
  have r2: "map_option (\<lambda>d. folderValue (folder d))
     (idb_get (designs (snd (saveDesignToLibrary
                               (draftDesign\<lparr>folder := FolderName ''Favorites''\<rparr>) library))) ''d1'') =
     Some (Some ''Favorites'')"
    by auto
  from r1 r2 show ?thesis by blast
qed

text \<open>
  Claim C4 as stated has an explicit none clear the folder. A record saved with
  \<open>folder: undefined\<close> over a design filed under \<open>Drafts\<close> is stored under
  \<open>Drafts\<close>: the test \<open>design.folder !== undefined\<close> cannot tell it from a record
  without the property.
\<close>

theorem upsert_explicit_none_counterexample:
  "map_option (\<lambda>d. folderValue (folder d)) (idb_get (designs library) ''d1'') =
     Some (Some ''Drafts'')
   \<and> folder (draftDesign\<lparr>folder := FolderUndefined\<rparr>) = FolderUndefined
   \<and> map_option (\<lambda>d. folderValue (folder d))
       (idb_get (designs (snd (saveDesignToLibrary
                                 (draftDesign\<lparr>folder := FolderUndefined\<rparr>) library))) ''d1'') =
       Some (Some ''Drafts'')"
  by (simp add: library_def draftDesign_def saveDesignToLibrary_def Let_def idb_get_put)
     (simp add: idb_get_def)


lemma find_by_key_unique:
  "distinct (map f xs) \<Longrightarrow> (find (\<lambda>d. f d = k) xs = Some d) = (d \<in> set xs \<and> f d = k)"
  by (induction xs) (auto simp add: rev_image_eqI)

lemma find_by_key_same_set:
  assumes "distinct (map f xs)" "distinct (map f ys)" "set xs = set ys"
  shows "find (\<lambda>d. f d = k) xs = find (\<lambda>d. f d = k) ys"
proof (cases "find (\<lambda>d. f d = k) xs")
  case None
  then have "\<forall>d\<in>set ys. f d \<noteq> k" using assms(3) by (auto simp add: find_None_iff)
  then have "find (\<lambda>d. f d = k) ys = None" by (simp add: find_None_iff)
  with None show ?thesis by simp
next
  case (Some d)
  then have "d \<in> set ys \<and> f d = k" using assms(1,3) by (simp add: find_by_key_unique)
  then have "find (\<lambda>d. f d = k) ys = Some d" using assms(2) by (simp add: find_by_key_unique)
  with Some show ?thesis by simp
qed

lemma clearFolders_active_get:
  "distinct (map design_id xs) \<Longrightarrow>
   \<exists>ds1. clearFolders TxActive False name xs ds = Inr ds1
     \<and> (\<forall>k. idb_get ds1 k =
           (case find (\<lambda>d. design_id d = k) xs of
              None \<Rightarrow> idb_get ds k
            | Some d \<Rightarrow> if folderValue (folder d) = Some name
                        then Some (d\<lparr>folder := FolderUndefined\<rparr>) else idb_get ds k))"
proof (induction xs arbitrary: ds)
  case Nil
  then show ?case by simp
next
  case (Cons x xs)
  from Cons.prems have dx: "distinct (map design_id xs)"
    and nx: "\<forall>d\<in>set xs. design_id d \<noteq> design_id x"
    by (auto simp add: image_iff)
  let ?ds = "if folderValue (folder x) = Some name
             then idb_put (x\<lparr>folder := FolderUndefined\<rparr>) ds else ds"
  have unfold: "clearFolders TxActive False name (x # xs) ds =
                  clearFolders TxActive False name xs ?ds"
    by simp
  have step: "\<And>k. idb_get ?ds k =
                (if design_id x = k \<and> folderValue (folder x) = Some name
                 then Some (x\<lparr>folder := FolderUndefined\<rparr>) else idb_get ds k)"
    by (auto simp add: idb_get_put)
  from Cons.IH[OF dx, of ?ds] obtain ds1 where
    r: "clearFolders TxActive False name xs ?ds = Inr ds1"
    and g: "\<And>k. idb_get ds1 k =
           (case find (\<lambda>d. design_id d = k) xs of
              None \<Rightarrow> idb_get ?ds k
            | Some d \<Rightarrow> if folderValue (folder d) = Some name
                        then Some (d\<lparr>folder := FolderUndefined\<rparr>) else idb_get ?ds k)"
    by blast
  have "\<forall>k. idb_get ds1 k =
           (case find (\<lambda>d. design_id d = k) (x # xs) of
              None \<Rightarrow> idb_get ds k
            | Some d \<Rightarrow> if folderValue (folder d) = Some name
                        then Some (d\<lparr>folder := FolderUndefined\<rparr>) else idb_get ds k)"
  proof
    fix k
    show "idb_get ds1 k =
           (case find (\<lambda>d. design_id d = k) (x # xs) of
              None \<Rightarrow> idb_get ds k
            | Some d \<Rightarrow> if folderValue (folder d) = Some name
                        then Some (d\<lparr>folder := FolderUndefined\<rparr>) else idb_get ds k)"
    proof (cases "design_id x = k")
      case True
      with nx have "find (\<lambda>d. design_id d = k) xs = None"
        by (simp add: find_None_iff)
      with True show ?thesis
        unfolding g step by simp
    next
      case False
      then show ?thesis
        unfolding g step by simp
    qed
  qed
  with r unfold show ?case by simp
qed

text \<open>
  On an active transaction the loop does what the folder deletion is meant to do:
  every record is kept, and exactly the designs filed under the name lose their
  folder.
\<close>

lemma clearFolders_on_active_transaction:
  assumes "distinct (map design_id ds)"
  shows "\<exists>ds1. clearFolders TxActive False name (sort_key (\<lambda>d. - timestamp d) ds) ds = Inr ds1
           \<and> (\<forall>k. idb_get ds1 k =
                 map_option (\<lambda>d. if folderValue (folder d) = Some name
                                  then d\<lparr>folder := FolderUndefined\<rparr> else d)
                   (idb_get ds k))"
proof -
  let ?snap = "sort_key (\<lambda>d. - timestamp d) ds"
  have d: "distinct (map design_id ?snap)"
    using assms by (simp add: distinct_map)
  have same: "\<And>k. find (\<lambda>d. design_id d = k) ?snap = idb_get ds k"
    unfolding idb_get_def
    by (rule find_by_key_same_set[OF d assms]) simp
  from clearFolders_active_get[OF d, of name ds] obtain ds1 where
    r: "clearFolders TxActive False name ?snap ds = Inr ds1"
    and g: "\<And>k. idb_get ds1 k =
           (case idb_get ds k of
              None \<Rightarrow> idb_get ds k
            | Some d \<Rightarrow> if folderValue (folder d) = Some name
                        then Some (d\<lparr>folder := FolderUndefined\<rparr>) else idb_get ds k)"
    unfolding same by blast
  have "\<forall>k. idb_get ds1 k =
                 map_option (\<lambda>d. if folderValue (folder d) = Some name
                                  then d\<lparr>folder := FolderUndefined\<rparr> else d)
                   (idb_get ds k)"
    by (simp add: g split: option.splits)
  with r show ?thesis by blast
qed

lemma clearFolders_finished:
  "clearFolders TxFinished rejected name xs ds = Inr ds1 \<Longrightarrow> ds1 = ds"
  by (induction xs) (auto split: if_splits)

text \<open>
  \<open>deleteFolder\<close> runs the loop on a transaction that has finished, so it never
  changes a design.
\<close>

lemma deleteFolder_never_writes:
  "designs (snd (deleteFolder name st)) = designs st"
  by (auto simp add: deleteFolder_def Let_def afterAwait_def split: sum.splits
        dest: clearFolders_finished)

lemma deleteFolder_folder_list:
  "fst (deleteFolder name st) = filter (\<lambda>f. f \<noteq> name) (getFolders st)
   \<and> getFolders (snd (deleteFolder name st)) = filter (\<lambda>f. f \<noteq> name) (getFolders st)
   \<and> name \<notin> set (getFolders (snd (deleteFolder name st)))"
  by (auto simp add: deleteFolder_def Let_def getFolders_def split: sum.splits)

text \<open>
  Claim C9 at a library holding a design filed under \<open>Drafts\<close>. Deleting the folder
  removes the name from the folder list, and a later listing does not show it. The
  design is still filed under \<open>Drafts\<close> afterwards: the \<open>put\<close> meant to clear it is
  placed on the finished transaction and throws, and the \<open>catch\<close> logs the error.
\<close>

theorem deleteFolder_keeps_design_folder:
  "fst (deleteFolder ''Drafts'' library) = [''Favorites'']
   \<and> getFolders (snd (deleteFolder ''Drafts'' library)) = [''Favorites'']
   \<and> map_option (\<lambda>d. folderValue (folder d)) (idb_get (designs library) ''d1'') =
       Some (Some ''Drafts'')
   \<and> map_option (\<lambda>d. folderValue (folder d))
       (idb_get (designs (snd (deleteFolder ''Drafts'' library))) ''d1'') =
       Some (Some ''Drafts'')"
  by (simp add: library_def draftDesign_def deleteFolder_def Let_def getFolders_def
        getSavedDesigns_def afterAwait_def idb_get_def)


end
